theory Spec2Isabelle
  imports Main "HOL-Library.Word" "HOL-Library.Signed_Division"
begin

section \<open>The service safe point keeper of pkg/utils/safe\_point.go\<close>

text \<open>
  The file registers a backup's timestamp with PD (the coordination service) as a service
  GC safe point, renews it on a ticker and watches the global GC safe point on a second
  ticker. Everything it does beyond computing is a remote call to PD, a log line or a
  ticker operation, so the model threads a \<open>world\<close> through every function: the replies
  PD is going to give, and the trace of effects performed so far, in order.
  \<open>MarshalLogObject\<close> (how a reservation is rendered in a log entry) and
  \<open>MakeSafePointID\<close> (a random id) are left out: a log entry keeps the reservation as
  it is, and the id is a field of the reservation.
\<close>

subsection \<open>Machine integers and durations\<close>

text \<open>
  Go's \<open>uint64\<close> and \<open>int64\<close> are 64-bit words; \<open>+\<close>, \<open>-\<close> and \<open>*\<close> wrap around.
  An \<open>int64\<close> is read with \<open>sint\<close>. \<open>time.Duration\<close> is an \<open>int64\<close> count of
  nanoseconds. Go's \<open>/\<close> on signed integers truncates towards zero, which is \<open>sdiv\<close>
  on the signed readings.
\<close>

type_synonym uint64 = "64 word"
type_synonym int64 = "64 word"
type_synonym Duration = "64 word"

definition int64_quo :: "int64 \<Rightarrow> int64 \<Rightarrow> int64" where
  "int64_quo a b = word_of_int (sint a sdiv sint b)"

definition Second :: Duration where
  "Second = 1000000000"

definition preUpdateServiceSafePointFactor :: int64 where
  "preUpdateServiceSafePointFactor = 3"

definition checkGCSafePointGapTime :: Duration where
  "checkGCSafePointGapTime = 5 * Second"

definition DefaultBRGCSafePointTTL :: int64 where
  "DefaultBRGCSafePointTTL = 5 * 60"

subsection \<open>Data\<close>

record BRServiceSafePoint =
  ID :: string
  TTL :: int64
  BackupTS :: uint64

text \<open>
  Go's \<open>error\<close> values. \<open>PDError\<close> is whatever error the PD client hands back,
  \<open>Traced\<close> is what \<open>errors.Trace\<close> makes of a non-nil error, \<open>Annotated\<close> is
  \<open>errors.Annotatef\<close> with its format string and arguments kept apart. A \<open>nil\<close>
  error is \<open>None\<close>.
\<close>

text \<open>
  Modelled from the spec: \<open>berrors.ErrBackupGCSafepointExceeded\<close> is declared in
  pkg/errors, which is not among the sources; it is the GC-exceeded failure, taken here
  as an opaque error value.
\<close>

datatype error =
    PDError string
  | ErrBackupGCSafepointExceeded
  | Traced error
  | Annotated error string "uint64 list"

definition errors_Trace :: "error option \<Rightarrow> error option" where
  "errors_Trace err = (case err of None \<Rightarrow> None | Some e \<Rightarrow> Some (Traced e))"

definition errors_Annotatef :: "error \<Rightarrow> string \<Rightarrow> uint64 list \<Rightarrow> error option" where
  "errors_Annotatef e format args = Some (Annotated e format args)"

subsection \<open>The world: PD, the log, the tickers\<close>

datatype pd_request =
    UpdateGCSafePoint uint64
  | UpdateServiceGCSafePoint string int64 uint64

datatype ticker = updateTick | checkTick

datatype level = DebugLevel | WarnLevel | PanicLevel

datatype field =
    zap_Error error
  | zap_Uint64 string uint64
  | zap_Object string BRServiceSafePoint

datatype effect =
    PD pd_request
  | Log level string "field list"
  | NewTicker ticker Duration
  | Stop ticker

text \<open>
  \<open>replies w n\<close> is the pair (value, error) the PD client returns to the \<open>n\<close>-th call
  made from \<open>w\<close> on. Both client methods return \<open>(uint64, error)\<close>. A theorem that
  holds for every \<open>replies\<close> holds for every behaviour of PD.
\<close>

record world =
  replies :: "nat \<Rightarrow> uint64 \<times> error option"
  trace :: "effect list"

definition emit :: "effect \<Rightarrow> world \<Rightarrow> world" where
  "emit e w = w\<lparr>trace := trace w @ [e]\<rparr>"

definition pdClient :: "pd_request \<Rightarrow> world \<Rightarrow> (uint64 \<times> error option) \<times> world" where
  "pdClient req w =
     (replies w 0, emit (PD req) (w\<lparr>replies := (\<lambda>n. replies w (Suc n))\<rparr>))"

definition log :: "level \<Rightarrow> string \<Rightarrow> field list \<Rightarrow> world \<Rightarrow> world" where
  "log lvl msg fs w = emit (Log lvl msg fs) w"

fun is_PD :: "effect \<Rightarrow> bool" where
  "is_PD (PD _) = True"
| "is_PD _ = False"

definition pd_calls :: "world \<Rightarrow> effect list" where
  "pd_calls w = filter is_PD (trace w)"

subsection \<open>getGCSafePoint, CheckGCSafePoint\<close>

definition getGCSafePoint :: "world \<Rightarrow> (uint64 \<times> error option) \<times> world" where
  "getGCSafePoint w =
     (case pdClient (UpdateGCSafePoint 0) w of
        ((safePoint, err), w') \<Rightarrow>
          (case err of
             Some e \<Rightarrow> ((0, errors_Trace (Some e)), w')
           | None \<Rightarrow> ((safePoint, None), w')))"

definition CheckGCSafePoint :: "uint64 \<Rightarrow> world \<Rightarrow> error option \<times> world" where
  "CheckGCSafePoint ts w =
     (case getGCSafePoint w of
        ((safePoint, err), w') \<Rightarrow>
          (case err of
             Some e \<Rightarrow> (None, log WarnLevel ''fail to get GC safe point'' [zap_Error e] w')
           | None \<Rightarrow>
               if ts \<le> safePoint
               then (errors_Annotatef ErrBackupGCSafepointExceeded
                       ''GC safepoint %d exceed TS %d'' [safePoint, ts], w')
               else (None, w')))"

subsection \<open>UpdateServiceSafePoint\<close>

definition UpdateServiceSafePoint :: "BRServiceSafePoint \<Rightarrow> world \<Rightarrow> error option \<times> world" where
  "UpdateServiceSafePoint sp w =
     (let w1 = log DebugLevel ''update PD safePoint limit with TTL''
                 [zap_Object ''safePoint'' sp] w
      in case pdClient (UpdateServiceGCSafePoint (ID sp) (TTL sp) (BackupTS sp - 1)) w1 of
           ((lastSafePoint, err), w2) \<Rightarrow>
             (let w3 = (if lastSafePoint > BackupTS sp - 1
                        then log WarnLevel
                               ''service GC safe point lost, we may fail to back up if GC lifetime isn't long enough''
                               [zap_Uint64 ''lastSafePoint'' lastSafePoint,
                                zap_Object ''safePoint'' sp] w2
                        else w2)
              in (errors_Trace err, w3)))"

subsection \<open>StartServiceSafePointKeeper\<close>

text \<open>
  The goroutine's \<open>select\<close> blocks until one of three channels is ready and takes one
  ready case. The cases it takes, in order, are the input of the loop; when the list is
  used up the goroutine is still blocked in \<open>select\<close> (\<open>Running\<close>).
  \<open>log.Panic\<close> writes the entry and panics; nothing in the goroutine recovers, so the
  panic ends the process (\<open>Panicked\<close>) after the deferred calls have run.
  Deferred calls run last-in first-out: \<open>checkTick.Stop()\<close>, then \<open>updateTick.Stop()\<close>.
\<close>

datatype select_case = ctx_Done | updateTick_C | checkTick_C

datatype outcome = Running | Returned | Panicked

definition updateGapTime :: "BRServiceSafePoint \<Rightarrow> Duration" where
  "updateGapTime sp = int64_quo (TTL sp * Second) preUpdateServiceSafePointFactor"

definition update :: "BRServiceSafePoint \<Rightarrow> world \<Rightarrow> world" where
  "update sp w =
     (case UpdateServiceSafePoint sp w of
        (Some err, w') \<Rightarrow>
          log WarnLevel ''failed to update service safe point, backup may fail if gc triggered''
            [zap_Error err] w'
      | (None, w') \<Rightarrow> w')"

text \<open>\<open>check\<close> returns whether it panicked.\<close>

definition check :: "BRServiceSafePoint \<Rightarrow> world \<Rightarrow> bool \<times> world" where
  "check sp w =
     (case CheckGCSafePoint (BackupTS sp) w of
        (Some err, w') \<Rightarrow>
          (True, log PanicLevel ''cannot pass gc safe point check, aborting''
                   [zap_Error err, zap_Object ''safePoint'' sp] w')
      | (None, w') \<Rightarrow> (False, w'))"

definition deferred :: "world \<Rightarrow> world" where
  "deferred w = emit (Stop updateTick) (emit (Stop checkTick) w)"

fun keeper_loop :: "BRServiceSafePoint \<Rightarrow> select_case list \<Rightarrow> world \<Rightarrow> outcome \<times> world" where
  "keeper_loop sp [] w = (Running, w)"
| "keeper_loop sp (ctx_Done # cs) w =
     (Returned, deferred (log DebugLevel ''service safe point keeper exited'' [] w))"
| "keeper_loop sp (updateTick_C # cs) w = keeper_loop sp cs (update sp w)"
| "keeper_loop sp (checkTick_C # cs) w =
     (case check sp w of
        (True, w') \<Rightarrow> (Panicked, deferred w')
      | (False, w') \<Rightarrow> keeper_loop sp cs w')"

text \<open>
  \<open>time.NewTicker d\<close> panics when \<open>d\<close> is not positive (\<open>None\<close>); the source's comment
  on \<open>updateGapTime\<close> relies on the TTL not being zero for that reason.
\<close>

definition time_NewTicker :: "ticker \<Rightarrow> Duration \<Rightarrow> world \<Rightarrow> world option" where
  "time_NewTicker t d w = (if sint d \<le> 0 then None else Some (emit (NewTicker t d) w))"

text \<open>
  The function creates both tickers, renews once and starts the goroutine; \<open>cs\<close> is the
  sequence of cases the goroutine's \<open>select\<close> takes.
\<close>

definition StartServiceSafePointKeeper ::
  "BRServiceSafePoint \<Rightarrow> select_case list \<Rightarrow> world \<Rightarrow> outcome \<times> world" where
  "StartServiceSafePointKeeper sp cs w =
     (case time_NewTicker updateTick (updateGapTime sp) w of
        None \<Rightarrow> (Panicked, w)
      | Some w1 \<Rightarrow>
          (case time_NewTicker checkTick checkGCSafePointGapTime w1 of
             None \<Rightarrow> (Panicked, w1)
           | Some w2 \<Rightarrow> keeper_loop sp cs (update sp w2)))"

section \<open>The one-shot check\<close>

lemmas world_simps = emit_def log_def pdClient_def

lemma getGCSafePoint_ok:
  "replies w 0 = (safePoint, None) \<Longrightarrow>
   getGCSafePoint w =
     ((safePoint, None), emit (PD (UpdateGCSafePoint 0)) (w\<lparr>replies := (\<lambda>n. replies w (Suc n))\<rparr>))"
  by (simp add: getGCSafePoint_def pdClient_def)

lemma getGCSafePoint_err:
  "replies w 0 = (v, Some e) \<Longrightarrow>
   getGCSafePoint w =
     ((0, Some (Traced e)), emit (PD (UpdateGCSafePoint 0)) (w\<lparr>replies := (\<lambda>n. replies w (Suc n))\<rparr>))"
  by (simp add: getGCSafePoint_def pdClient_def errors_Trace_def)

text \<open>
  C1. When the query of the global GC safe point succeeds with value \<open>safePoint\<close>,
  \<open>CheckGCSafePoint ts\<close> returns the GC-exceeded error annotated with \<open>safePoint\<close> and
  \<open>ts\<close> exactly when \<open>ts \<le> safePoint\<close>, and returns nil exactly when \<open>ts > safePoint\<close>.
\<close>

theorem CheckGCSafePoint_exceeded_iff:
  assumes "replies w 0 = (safePoint, None)"
  shows "(fst (CheckGCSafePoint ts w) =
            Some (Annotated ErrBackupGCSafepointExceeded ''GC safepoint %d exceed TS %d''
                    [safePoint, ts])) = (ts \<le> safePoint)
       \<and> (fst (CheckGCSafePoint ts w) = None) = (ts > safePoint)"
  using assms
  by (auto simp add: CheckGCSafePoint_def getGCSafePoint_ok errors_Annotatef_def)

theorem CheckGCSafePoint_exceeded_iff_witness:
  "fst (CheckGCSafePoint 1000 \<lparr>replies = (\<lambda>n. (1500, None)), trace = []\<rparr>) =
     Some (Annotated ErrBackupGCSafepointExceeded ''GC safepoint %d exceed TS %d'' [1500, 1000])
   \<and> fst (CheckGCSafePoint 1000 \<lparr>replies = (\<lambda>n. (999, None)), trace = []\<rparr>) = None"
  using CheckGCSafePoint_exceeded_iff
          [of "\<lparr>replies = (\<lambda>n. (1500, None)), trace = []\<rparr>" 1500 1000]
        CheckGCSafePoint_exceeded_iff
          [of "\<lparr>replies = (\<lambda>n. (999, None)), trace = []\<rparr>" 999 1000]
  by simp

text \<open>
  C2. When the query of the global GC safe point fails, \<open>CheckGCSafePoint\<close> returns nil
  for every \<open>ts\<close>; the only effects are the query and one warning carrying the error.
\<close>

theorem CheckGCSafePoint_query_error_swallowed:
  assumes "replies w 0 = (v, Some e)"
  shows "fst (CheckGCSafePoint ts w) = None
       \<and> trace (snd (CheckGCSafePoint ts w)) =
           trace w @ [PD (UpdateGCSafePoint 0),
                      Log WarnLevel ''fail to get GC safe point'' [zap_Error (Traced e)]]"
  using assms
  by (simp add: CheckGCSafePoint_def getGCSafePoint_err world_simps)

theorem CheckGCSafePoint_query_error_swallowed_witness:
  "fst (CheckGCSafePoint 1000
          \<lparr>replies = (\<lambda>n. (0, Some (PDError ''timeout''))), trace = []\<rparr>) = None
   \<and> trace (snd (CheckGCSafePoint 1000
                   \<lparr>replies = (\<lambda>n. (0, Some (PDError ''timeout''))), trace = []\<rparr>)) =
      [PD (UpdateGCSafePoint 0),
       Log WarnLevel ''fail to get GC safe point'' [zap_Error (Traced (PDError ''timeout''))]]"
  using CheckGCSafePoint_query_error_swallowed
          [of "\<lparr>replies = (\<lambda>n. (0, Some (PDError ''timeout''))), trace = []\<rparr>"
              0 "PDError ''timeout''" 1000]
  by simp

section \<open>The renewal\<close>

lemma UpdateServiceSafePoint_fst:
  "fst (UpdateServiceSafePoint sp w) = errors_Trace (snd (replies w 0))"
  by (simp add: UpdateServiceSafePoint_def world_simps Let_def split: prod.splits)

lemma UpdateServiceSafePoint_trace:
  "trace (snd (UpdateServiceSafePoint sp w)) =
     trace w @
     [Log DebugLevel ''update PD safePoint limit with TTL'' [zap_Object ''safePoint'' sp],
      PD (UpdateServiceGCSafePoint (ID sp) (TTL sp) (BackupTS sp - 1))] @
     (if fst (replies w 0) > BackupTS sp - 1
      then [Log WarnLevel
              ''service GC safe point lost, we may fail to back up if GC lifetime isn't long enough''
              [zap_Uint64 ''lastSafePoint'' (fst (replies w 0)), zap_Object ''safePoint'' sp]]
      else [])"
  by (simp add: UpdateServiceSafePoint_def world_simps Let_def split: prod.splits)

lemma UpdateServiceSafePoint_replies:
  "replies (snd (UpdateServiceSafePoint sp w)) = (\<lambda>n. replies w (Suc n))"
  by (simp add: UpdateServiceSafePoint_def world_simps Let_def split: prod.splits)

text \<open>
  C3. \<open>UpdateServiceSafePoint\<close> makes exactly one call to PD, with the reservation's ID,
  its TTL and \<open>BackupTS - 1\<close> (64-bit unsigned subtraction), and the timestamp sent is
  never \<open>BackupTS\<close> itself.
\<close>

theorem UpdateServiceSafePoint_submits_BackupTS_minus_1:
  "pd_calls (snd (UpdateServiceSafePoint sp w)) =
     pd_calls w @ [PD (UpdateServiceGCSafePoint (ID sp) (TTL sp) (BackupTS sp - 1))]
   \<and> BackupTS sp - 1 \<noteq> BackupTS sp"
  by (simp add: pd_calls_def UpdateServiceSafePoint_trace)

text \<open>
  C7. When PD reports a previous value strictly greater than \<open>BackupTS - 1\<close>, the renewal
  logs the reservation-lost warning after the call, and what it returns is the traced
  error of the call alone: nil exactly when the call itself returned nil.
\<close>

theorem UpdateServiceSafePoint_lost_warning_no_error:
  assumes "replies w 0 = (lastSafePoint, err)"
      and "lastSafePoint > BackupTS sp - 1"
  shows "fst (UpdateServiceSafePoint sp w) = errors_Trace err
       \<and> (fst (UpdateServiceSafePoint sp w) = None) = (err = None)
       \<and> trace (snd (UpdateServiceSafePoint sp w)) =
           trace w @
           [Log DebugLevel ''update PD safePoint limit with TTL'' [zap_Object ''safePoint'' sp],
            PD (UpdateServiceGCSafePoint (ID sp) (TTL sp) (BackupTS sp - 1)),
            Log WarnLevel
              ''service GC safe point lost, we may fail to back up if GC lifetime isn't long enough''
              [zap_Uint64 ''lastSafePoint'' lastSafePoint, zap_Object ''safePoint'' sp]]"
  using assms
  by (simp add: UpdateServiceSafePoint_fst UpdateServiceSafePoint_trace errors_Trace_def
        split: option.splits)

theorem UpdateServiceSafePoint_lost_warning_no_error_witness:
  "fst (UpdateServiceSafePoint \<lparr>ID = ''br-1'', TTL = 600, BackupTS = 1000\<rparr>
          \<lparr>replies = (\<lambda>n. (2000, None)), trace = []\<rparr>) = None
   \<and> trace (snd (UpdateServiceSafePoint \<lparr>ID = ''br-1'', TTL = 600, BackupTS = 1000\<rparr>
                   \<lparr>replies = (\<lambda>n. (2000, None)), trace = []\<rparr>)) =
      [Log DebugLevel ''update PD safePoint limit with TTL''
         [zap_Object ''safePoint'' \<lparr>ID = ''br-1'', TTL = 600, BackupTS = 1000\<rparr>],
       PD (UpdateServiceGCSafePoint ''br-1'' 600 999),
       Log WarnLevel
         ''service GC safe point lost, we may fail to back up if GC lifetime isn't long enough''
         [zap_Uint64 ''lastSafePoint'' 2000,
          zap_Object ''safePoint'' \<lparr>ID = ''br-1'', TTL = 600, BackupTS = 1000\<rparr>]]"
  using UpdateServiceSafePoint_lost_warning_no_error
          [of "\<lparr>replies = (\<lambda>n. (2000, None)), trace = []\<rparr>" 2000 None
              "\<lparr>ID = ''br-1'', TTL = 600, BackupTS = 1000\<rparr>"]
  by (simp add: errors_Trace_def)

text \<open>
  C10. With \<open>BackupTS = 0\<close> the renewal submits \<open>2^64 - 1\<close>, and whatever PD replies the
  reservation-lost warning is not logged: the trace grows by the debug line and the call
  only.
\<close>

theorem UpdateServiceSafePoint_BackupTS_zero:
  assumes "BackupTS sp = 0"
  shows "trace (snd (UpdateServiceSafePoint sp w)) =
           trace w @
           [Log DebugLevel ''update PD safePoint limit with TTL'' [zap_Object ''safePoint'' sp],
            PD (UpdateServiceGCSafePoint (ID sp) (TTL sp) 18446744073709551615)]
       \<and> unat (18446744073709551615 :: uint64) = 2 ^ 64 - 1"
proof -
  have m: "(0::uint64) - 1 = 18446744073709551615" by simp
  have m1: "(18446744073709551615::uint64) = - 1" by simp
  have n: "\<not> (x > (18446744073709551615::uint64))" for x
    unfolding m1 by (simp add: not_less)
  show ?thesis using assms
    by (simp add: UpdateServiceSafePoint_trace m n)
qed

theorem UpdateServiceSafePoint_BackupTS_zero_witness:
  "trace (snd (UpdateServiceSafePoint \<lparr>ID = ''br-1'', TTL = 600, BackupTS = 0\<rparr>
                 \<lparr>replies = (\<lambda>n. (18446744073709551615, None)), trace = []\<rparr>)) =
     [Log DebugLevel ''update PD safePoint limit with TTL''
        [zap_Object ''safePoint'' \<lparr>ID = ''br-1'', TTL = 600, BackupTS = 0\<rparr>],
      PD (UpdateServiceGCSafePoint ''br-1'' 600 18446744073709551615)]"
  using UpdateServiceSafePoint_BackupTS_zero
          [of "\<lparr>ID = ''br-1'', TTL = 600, BackupTS = 0\<rparr>"
              "\<lparr>replies = (\<lambda>n. (18446744073709551615, None)), trace = []\<rparr>"]
  by simp

section \<open>The periods of the two tickers\<close>

lemma sint_mult_Second:
  assumes "0 < sint (t::int64)" and "sint t \<le> 9223372036"
  shows "sint (t * Second) = sint t * 1000000000"
proof -
  have "sint (t * Second) = signed_take_bit 63 (sint t * sint Second)"
    by (simp add: sint_word_ariths)
  also have "sint Second = 1000000000"
    by (simp add: Second_def)
  also have "signed_take_bit 63 (sint t * 1000000000) = sint t * 1000000000"
    using assms by (simp add: signed_take_bit_int_eq_self_iff)
  finally show ?thesis .
qed

lemma updateGapTime_sint:
  assumes "0 < sint (TTL sp)" and "sint (TTL sp) \<le> 9223372036"
  shows "sint (updateGapTime sp) = (sint (TTL sp) * 1000000000) div 3"
proof -
  let ?n = "sint (TTL sp) * 1000000000"
  have a: "sint (TTL sp * Second) = ?n"
    using assms by (rule sint_mult_Second)
  have "0 \<le> ?n"
    using assms by simp
  then have q: "?n sdiv 3 = ?n div 3"
    by (simp add: signed_divide_int_def sgn_if)
  have "0 \<le> ?n div 3" and "?n div 3 < 2 ^ 63"
    using assms by simp_all
  then have "sint (word_of_int (?n div 3) :: int64) = ?n div 3"
    by (simp add: signed_take_bit_int_eq_self_iff sint_sbintrunc')
  with q show ?thesis
    by (simp add: updateGapTime_def int64_quo_def a preUpdateServiceSafePointFactor_def)
qed

lemma updateGapTime_pos:
  assumes "0 < sint (TTL sp)" and "sint (TTL sp) \<le> 9223372036"
  shows "0 < sint (updateGapTime sp)"
  using assms by (simp add: updateGapTime_sint)

text \<open>
  C5, as stated, fails: a TTL of 9223372037 seconds is positive, but the product with
  \<open>time.Second\<close> wraps around in the 64-bit \<open>Duration\<close> and the computed period is
  negative.
\<close>

theorem updateGapTime_wraps_counterexample:
  "0 < sint (TTL \<lparr>ID = ''br-1'', TTL = 9223372037, BackupTS = 1000\<rparr>)
   \<and> sint (updateGapTime \<lparr>ID = ''br-1'', TTL = 9223372037, BackupTS = 1000\<rparr>) =
       - 3074457345569850538
   \<and> sint (updateGapTime \<lparr>ID = ''br-1'', TTL = 9223372037, BackupTS = 1000\<rparr>) \<noteq>
       (sint (TTL \<lparr>ID = ''br-1'', TTL = 9223372037, BackupTS = 1000\<rparr>) * 1000000000) div 3"
  by (simp add: updateGapTime_def int64_quo_def Second_def preUpdateServiceSafePointFactor_def
        signed_divide_int_def)

text \<open>
  C5, amended. For every TTL with \<open>0 < TTL \<le> 9223372036\<close> (the TTLs whose length in
  nanoseconds fits a \<open>Duration\<close>), the renewal period is a third of TTL seconds, rounded
  down to a whole nanosecond; the check period is 5 seconds.
\<close>

theorem updateGapTime_third_of_TTL:
  assumes "0 < sint (TTL sp)" and "sint (TTL sp) \<le> 9223372036"
  shows "sint (updateGapTime sp) = (sint (TTL sp) * 1000000000) div 3
       \<and> sint checkGCSafePointGapTime = 5 * 1000000000"
  using assms
  by (simp add: updateGapTime_sint checkGCSafePointGapTime_def Second_def)

theorem updateGapTime_third_of_TTL_witness:
  "sint (updateGapTime \<lparr>ID = ''br-1'', TTL = DefaultBRGCSafePointTTL, BackupTS = 1000\<rparr>) =
     100 * 1000000000
   \<and> sint (updateGapTime \<lparr>ID = ''br-1'', TTL = 600, BackupTS = 1000\<rparr>) = 200 * 1000000000
   \<and> sint (updateGapTime \<lparr>ID = ''br-1'', TTL = 5, BackupTS = 1000\<rparr>) = 1666666666
   \<and> sint checkGCSafePointGapTime = 5000000000"
  using updateGapTime_third_of_TTL
          [of "\<lparr>ID = ''br-1'', TTL = DefaultBRGCSafePointTTL, BackupTS = 1000\<rparr>"]
        updateGapTime_third_of_TTL [of "\<lparr>ID = ''br-1'', TTL = 600, BackupTS = 1000\<rparr>"]
        updateGapTime_third_of_TTL [of "\<lparr>ID = ''br-1'', TTL = 5, BackupTS = 1000\<rparr>"]
  by (simp add: DefaultBRGCSafePointTTL_def)

section \<open>The keeper\<close>

lemma update_trace:
  "trace (update sp w) =
     trace (snd (UpdateServiceSafePoint sp w)) @
     (case snd (replies w 0) of
        None \<Rightarrow> []
      | Some e \<Rightarrow> [Log WarnLevel
                     ''failed to update service safe point, backup may fail if gc triggered''
                     [zap_Error (Traced e)]])"
  using UpdateServiceSafePoint_fst [of sp w]
  by (cases "UpdateServiceSafePoint sp w")
     (auto simp add: update_def world_simps errors_Trace_def split: option.splits)

lemma update_replies: "replies (update sp w) = (\<lambda>n. replies w (Suc n))"
  using UpdateServiceSafePoint_replies [of sp w]
  by (cases "UpdateServiceSafePoint sp w")
     (auto simp add: update_def world_simps split: option.splits)

lemma update_pd_calls:
  "pd_calls (update sp w) =
     pd_calls w @ [PD (UpdateServiceGCSafePoint (ID sp) (TTL sp) (BackupTS sp - 1))]"
  by (simp add: pd_calls_def update_trace UpdateServiceSafePoint_trace split: option.splits)

lemma deferred_trace: "trace (deferred w) = trace w @ [Stop checkTick, Stop updateTick]"
  by (simp add: deferred_def emit_def)

lemma check_trace: "\<exists>rest. trace (snd (check sp w)) = trace w @ rest"
  by (cases "replies w 0"; cases "snd (replies w 0)")
     (simp_all add: check_def CheckGCSafePoint_def getGCSafePoint_def errors_Trace_def
        errors_Annotatef_def world_simps)

text \<open>The loop only ever appends to the trace.\<close>

lemma keeper_loop_trace: "\<exists>rest. trace (snd (keeper_loop sp cs w)) = trace w @ rest"
proof (induction sp cs w rule: keeper_loop.induct)
  case (1 sp w)
  show ?case by simp
next
  case (2 sp cs w)
  show ?case by (simp add: deferred_trace world_simps)
next
  case (3 sp cs w)
  then show ?case by (auto simp add: update_trace UpdateServiceSafePoint_trace)
next
  case (4 sp cs w)
  obtain b w' where cw: "check sp w = (b, w')"
    by (cases "check sp w")
  from check_trace [of sp w] cw obtain r1 where r1: "trace w' = trace w @ r1"
    by auto
  show ?case
  proof (cases b)
    case True
    then show ?thesis using cw r1 by (simp add: deferred_trace)
  next
    case False
    with "4.IH" cw obtain r2 where "trace (snd (keeper_loop sp cs w')) = trace w' @ r2"
      by fastforce
    then show ?thesis using cw False r1 by simp
  qed
qed

lemma keeper_loop_Returned:
  "fst (keeper_loop sp cs w) = Returned \<Longrightarrow> ctx_Done \<in> set cs"
  by (induction sp cs w rule: keeper_loop.induct) (auto split: prod.splits bool.splits)

text \<open>
  C4. When the loop takes a check tick and the check finds \<open>BackupTS \<le> safePoint\<close>, the
  loop panics: it makes the one query, logs at panic level, stops both tickers and does
  nothing more, whatever cases would have followed. On every other outcome of the check
  (a larger \<open>BackupTS\<close>, or a failed query) the loop goes on with the next case.
\<close>

theorem keeper_loop_check_exceeded_is_fatal:
  assumes "replies w 0 = (safePoint, err)"
  shows "(err = None \<and> BackupTS sp \<le> safePoint \<longrightarrow>
            fst (keeper_loop sp (checkTick_C # cs) w) = Panicked
          \<and> trace (snd (keeper_loop sp (checkTick_C # cs) w)) =
              trace w @
              [PD (UpdateGCSafePoint 0),
               Log PanicLevel ''cannot pass gc safe point check, aborting''
                 [zap_Error (Annotated ErrBackupGCSafepointExceeded
                               ''GC safepoint %d exceed TS %d'' [safePoint, BackupTS sp]),
                  zap_Object ''safePoint'' sp],
               Stop checkTick, Stop updateTick])
       \<and> (\<not> (err = None \<and> BackupTS sp \<le> safePoint) \<longrightarrow>
            keeper_loop sp (checkTick_C # cs) w =
              keeper_loop sp cs (snd (CheckGCSafePoint (BackupTS sp) w))
          \<and> fst (CheckGCSafePoint (BackupTS sp) w) = None)"
proof (cases err)
  case None
  with assms have r: "replies w 0 = (safePoint, None)" by simp
  show ?thesis
    by (simp add: None check_def CheckGCSafePoint_def getGCSafePoint_ok [OF r]
          errors_Annotatef_def deferred_trace world_simps)
next
  case (Some e)
  with assms have r: "replies w 0 = (safePoint, Some e)" by simp
  show ?thesis
    by (simp add: Some check_def CheckGCSafePoint_def getGCSafePoint_err [OF r] world_simps)
qed

theorem keeper_loop_check_exceeded_is_fatal_witness:
  "fst (keeper_loop \<lparr>ID = ''br-1'', TTL = 600, BackupTS = 1000\<rparr>
          [checkTick_C, updateTick_C, checkTick_C]
          \<lparr>replies = (\<lambda>n. (1500, None)), trace = []\<rparr>) = Panicked
   \<and> trace (snd (keeper_loop \<lparr>ID = ''br-1'', TTL = 600, BackupTS = 1000\<rparr>
                   [checkTick_C, updateTick_C, checkTick_C]
                   \<lparr>replies = (\<lambda>n. (1500, None)), trace = []\<rparr>)) =
      [PD (UpdateGCSafePoint 0),
       Log PanicLevel ''cannot pass gc safe point check, aborting''
         [zap_Error (Annotated ErrBackupGCSafepointExceeded
                       ''GC safepoint %d exceed TS %d'' [1500, 1000]),
          zap_Object ''safePoint'' \<lparr>ID = ''br-1'', TTL = 600, BackupTS = 1000\<rparr>],
       Stop checkTick, Stop updateTick]
   \<and> fst (keeper_loop \<lparr>ID = ''br-1'', TTL = 600, BackupTS = 1000\<rparr> [checkTick_C]
            \<lparr>replies = (\<lambda>n. (999, None)), trace = []\<rparr>) = Running"
  using keeper_loop_check_exceeded_is_fatal
          [of "\<lparr>replies = (\<lambda>n. (1500, None)), trace = []\<rparr>" 1500 None
              "\<lparr>ID = ''br-1'', TTL = 600, BackupTS = 1000\<rparr>" "[updateTick_C, checkTick_C]"]
        keeper_loop_check_exceeded_is_fatal
          [of "\<lparr>replies = (\<lambda>n. (999, None)), trace = []\<rparr>" 999 None
              "\<lparr>ID = ''br-1'', TTL = 600, BackupTS = 1000\<rparr>" "[]"]
  by simp

text \<open>
  C8. When the loop takes a renewal tick and the renewal call fails, the loop is still
  running afterwards: it has made exactly one call to PD, consumed exactly one reply,
  logged the failure as a warning, and goes on with whatever case \<open>select\<close> takes next.
\<close>

theorem keeper_loop_update_failure_not_fatal:
  assumes "replies w 0 = (lastSafePoint, Some e)"
  shows "keeper_loop sp (updateTick_C # cs) w = keeper_loop sp cs (update sp w)
       \<and> keeper_loop sp [updateTick_C] w = (Running, update sp w)
       \<and> replies (update sp w) = (\<lambda>n. replies w (Suc n))
       \<and> trace (update sp w) =
           trace w @
           [Log DebugLevel ''update PD safePoint limit with TTL'' [zap_Object ''safePoint'' sp],
            PD (UpdateServiceGCSafePoint (ID sp) (TTL sp) (BackupTS sp - 1))] @
           (if lastSafePoint > BackupTS sp - 1
            then [Log WarnLevel
                    ''service GC safe point lost, we may fail to back up if GC lifetime isn't long enough''
                    [zap_Uint64 ''lastSafePoint'' lastSafePoint, zap_Object ''safePoint'' sp]]
            else []) @
           [Log WarnLevel ''failed to update service safe point, backup may fail if gc triggered''
              [zap_Error (Traced e)]]"
  using assms by (simp add: update_replies update_trace UpdateServiceSafePoint_trace)

theorem keeper_loop_update_failure_not_fatal_witness:
  "fst (keeper_loop \<lparr>ID = ''br-1'', TTL = 600, BackupTS = 1000\<rparr> [updateTick_C]
          \<lparr>replies = (\<lambda>n. (0, Some (PDError ''timeout''))), trace = []\<rparr>) = Running
   \<and> trace (update \<lparr>ID = ''br-1'', TTL = 600, BackupTS = 1000\<rparr>
              \<lparr>replies = (\<lambda>n. (0, Some (PDError ''timeout''))), trace = []\<rparr>) =
      [Log DebugLevel ''update PD safePoint limit with TTL''
         [zap_Object ''safePoint'' \<lparr>ID = ''br-1'', TTL = 600, BackupTS = 1000\<rparr>],
       PD (UpdateServiceGCSafePoint ''br-1'' 600 999),
       Log WarnLevel ''failed to update service safe point, backup may fail if gc triggered''
         [zap_Error (Traced (PDError ''timeout''))]]"
  using keeper_loop_update_failure_not_fatal
          [of "\<lparr>replies = (\<lambda>n. (0, Some (PDError ''timeout''))), trace = []\<rparr>"
              0 "PDError ''timeout''" "\<lparr>ID = ''br-1'', TTL = 600, BackupTS = 1000\<rparr>" "[]"]
  by simp

text \<open>
  C9. When the loop takes the cancellation case, it logs its exit, stops both tickers
  and returns; it makes no call to PD and does not panic, whatever cases would have
  followed. A loop that returned has taken the cancellation case: every other way out
  of the loop is the panic.
\<close>

theorem keeper_loop_cancelled_returns:
  "keeper_loop sp (ctx_Done # cs) w =
     (Returned, w\<lparr>trace := trace w @
        [Log DebugLevel ''service safe point keeper exited'' [],
         Stop checkTick, Stop updateTick]\<rparr>)
   \<and> pd_calls (snd (keeper_loop sp (ctx_Done # cs) w)) = pd_calls w
   \<and> (fst (keeper_loop sp cs w) = Returned \<longrightarrow> ctx_Done \<in> set cs)"
  by (simp add: deferred_def world_simps pd_calls_def keeper_loop_Returned)

theorem keeper_loop_cancelled_returns_witness:
  "fst (keeper_loop \<lparr>ID = ''br-1'', TTL = 600, BackupTS = 1000\<rparr> [ctx_Done, updateTick_C]
          \<lparr>replies = (\<lambda>n. (0, None)), trace = []\<rparr>) = Returned
   \<and> ctx_Done \<in> set [ctx_Done, updateTick_C]
   \<and> pd_calls (snd (keeper_loop \<lparr>ID = ''br-1'', TTL = 600, BackupTS = 1000\<rparr>
                      [ctx_Done, ctx_Done, updateTick_C]
                      \<lparr>replies = (\<lambda>n. (0, None)), trace = []\<rparr>)) = []"
  using keeper_loop_cancelled_returns
          [of "\<lparr>ID = ''br-1'', TTL = 600, BackupTS = 1000\<rparr>" "[ctx_Done, updateTick_C]"
              "\<lparr>replies = (\<lambda>n. (0, None)), trace = []\<rparr>"]
  by (simp add: pd_calls_def)

text \<open>
  C6, as stated, fails: with a TTL of 0 the renewal period is 0, creating the renewal
  ticker panics, and the function is left before any call to PD.
\<close>

theorem StartServiceSafePointKeeper_TTL_zero_counterexample:
  "fst (StartServiceSafePointKeeper \<lparr>ID = ''br-1'', TTL = 0, BackupTS = 1000\<rparr> []
          \<lparr>replies = (\<lambda>n. (0, None)), trace = []\<rparr>) = Panicked
   \<and> pd_calls (snd (StartServiceSafePointKeeper \<lparr>ID = ''br-1'', TTL = 0, BackupTS = 1000\<rparr> []
                      \<lparr>replies = (\<lambda>n. (0, None)), trace = []\<rparr>)) = []"
  by (simp add: StartServiceSafePointKeeper_def time_NewTicker_def updateGapTime_def
        int64_quo_def pd_calls_def)

text \<open>
  C6, amended. Whenever the renewal period is positive (by \<open>updateGapTime_pos\<close>, for
  every TTL from 1 to 9223372036), starting the keeper makes exactly one call to PD, the
  renewal, before the goroutine takes its first case; every later effect, for every
  sequence of cases, comes after it.
\<close>

theorem StartServiceSafePointKeeper_renews_first:
  assumes "0 < sint (updateGapTime sp)"
  shows "StartServiceSafePointKeeper sp cs w =
           keeper_loop sp cs (snd (StartServiceSafePointKeeper sp [] w))
       \<and> pd_calls (snd (StartServiceSafePointKeeper sp [] w)) =
           pd_calls w @ [PD (UpdateServiceGCSafePoint (ID sp) (TTL sp) (BackupTS sp - 1))]
       \<and> (\<exists>rest. trace (snd (StartServiceSafePointKeeper sp cs w)) =
                    trace (snd (StartServiceSafePointKeeper sp [] w)) @ rest)"
proof -
  have c: "0 < sint checkGCSafePointGapTime"
    by (simp add: checkGCSafePointGapTime_def Second_def)
  let ?w2 = "emit (NewTicker checkTick checkGCSafePointGapTime)
               (emit (NewTicker updateTick (updateGapTime sp)) w)"
  have s: "StartServiceSafePointKeeper sp cs' w = keeper_loop sp cs' (update sp ?w2)" for cs'
    using assms c by (simp add: StartServiceSafePointKeeper_def time_NewTicker_def)
  have "pd_calls ?w2 = pd_calls w"
    by (simp add: pd_calls_def emit_def)
  then show ?thesis
    using keeper_loop_trace [of sp cs "update sp ?w2"]
    by (simp add: s update_pd_calls)
qed

theorem StartServiceSafePointKeeper_renews_first_witness:
  "0 < sint (updateGapTime \<lparr>ID = ''br-1'', TTL = 600, BackupTS = 1000\<rparr>)
   \<and> pd_calls (snd (StartServiceSafePointKeeper \<lparr>ID = ''br-1'', TTL = 600, BackupTS = 1000\<rparr> []
                      \<lparr>replies = (\<lambda>n. (0, None)), trace = []\<rparr>)) =
      [PD (UpdateServiceGCSafePoint ''br-1'' 600 999)]"
proof -
  have h: "0 < sint (updateGapTime \<lparr>ID = ''br-1'', TTL = 600, BackupTS = 1000\<rparr>)"
    by (simp add: updateGapTime_pos)
  show ?thesis
    using h StartServiceSafePointKeeper_renews_first
              [OF h, of "[]" "\<lparr>replies = (\<lambda>n. (0, None)), trace = []\<rparr>"]
    by (simp add: pd_calls_def)
qed

end
